theory Spec2Isabelle
  imports Complex_Main "HOL-Library.Word"
begin

section \<open>Values shared by the tools\<close>

text \<open>
  A Node \<open>Buffer\<close> is a list of bytes. A JavaScript string is modelled as a \<open>string\<close>;
  none of the functions below looks inside a character except to compare it with an
  ASCII character.
\<close>

type_synonym byte = "8 word"

text \<open>
  A thrown JavaScript value. The handlers distinguish only
  \<open>error instanceof Error\<close> (then they read \<open>error.message\<close>) from everything else.
\<close>

datatype exn = Error string | NonError

section \<open>The exec stream demultiplexer (\<open>parseDockerStream\<close>)\<close>

text \<open>
  \<open>buf.readUInt32BE(off)\<close>: four bytes, most significant first. Node throws a
  \<open>RangeError\<close> when \<open>off + 4\<close> exceeds the length of the buffer.
\<close>

definition readUInt32BE :: "byte list \<Rightarrow> nat \<Rightarrow> exn + nat" where
  "readUInt32BE buf off =
     (if off + 4 \<le> length buf
      then Inr (unat (buf ! off) * 2 ^ 24 + unat (buf ! (off + 1)) * 2 ^ 16
                + unat (buf ! (off + 2)) * 2 ^ 8 + unat (buf ! (off + 3)))
      else Inl (Error ''ERR_OUT_OF_RANGE''))"

text \<open>\<open>buf[i]\<close>: \<open>undefined\<close> (here \<open>None\<close>) out of range.\<close>

definition byteAt :: "byte list \<Rightarrow> nat \<Rightarrow> byte option" where
  "byteAt buf i = (if i < length buf then Some (buf ! i) else None)"

text \<open>\<open>buf.slice(a, b)\<close> for non-negative indices: both ends are clamped to the buffer.\<close>

definition slice :: "'a list \<Rightarrow> nat \<Rightarrow> nat \<Rightarrow> 'a list" where
  "slice buf a b = take (b - a) (drop a buf)"

text \<open>
  The \<open>while\<close> loop of \<open>parseDockerStream\<close>, with its three local variables as
  arguments. \<open>toString\<close> is \<open>Buffer.prototype.toString\<close> (UTF-8 decoding), a function
  of the runtime and a parameter here. The loop is a partial function: \<open>None\<close> is
  "never returns", \<open>Some (Inl e)\<close> is "throws \<open>e\<close>".
\<close>

partial_function (option) parseLoop ::
  "(byte list \<Rightarrow> string) \<Rightarrow> byte list \<Rightarrow> nat \<Rightarrow> string \<Rightarrow> string
     \<Rightarrow> (exn + string \<times> string) option"
where
  "parseLoop toString data offset stdout stderr =
     (if offset < length data then
        (if offset + 8 > length data then Some (Inr (stdout, stderr))
         else
           (let streamType = byteAt data offset in
            case readUInt32BE data (offset + 4) of
              Inl e \<Rightarrow> Some (Inl e)
            | Inr sz \<Rightarrow>
                if offset + 8 + sz > length data then Some (Inr (stdout, stderr))
                else
                  (let chunk = toString (slice data (offset + 8) (offset + 8 + sz)) in
                   if streamType = Some 1
                   then parseLoop toString data (offset + 8 + sz) (stdout @ chunk) stderr
                   else if streamType = Some 2
                   then parseLoop toString data (offset + 8 + sz) stdout (stderr @ chunk)
                   else parseLoop toString data (offset + 8 + sz) stdout stderr)))
      else Some (Inr (stdout, stderr)))"

definition parseDockerStream ::
  "(byte list \<Rightarrow> string) \<Rightarrow> byte list \<Rightarrow> (exn + string \<times> string) option" where
  "parseDockerStream toString data = parseLoop toString data 0 [] []"

subsection \<open>The frame format, as the specification words it\<close>


definition be32 :: "nat \<Rightarrow> byte list" where
  "be32 n = [of_nat (n div 2 ^ 24), of_nat (n div 2 ^ 16), of_nat (n div 2 ^ 8), of_nat n]"








section \<open>Shell-argument escaping (\<open>escapeShellArg\<close>)\<close>

text \<open>Characters that cannot be written inside an Isabelle string literal.\<close>

abbreviation quoteChar :: char where "quoteChar \<equiv> CHR 0x27"
abbreviation backslashChar :: char where "backslashChar \<equiv> CHR 0x5C"
abbreviation dquoteChar :: char where "dquoteChar \<equiv> CHR 0x22"
abbreviation backtickChar :: char where "backtickChar \<equiv> CHR 0x60"
abbreviation newlineChar :: char where "newlineChar \<equiv> CHR 0x0A"
abbreviation tabChar :: char where "tabChar \<equiv> CHR 0x09"

text \<open>
  \<open>s.replace(/c/g, r)\<close> for a pattern that is one literal character and a replacement
  without \<open>$\<close>: every occurrence of the character becomes \<open>r\<close>.
\<close>

primrec replaceEach :: "char \<Rightarrow> string \<Rightarrow> string \<Rightarrow> string" where
  "replaceEach c r [] = []"
| "replaceEach c r (x # xs) = (if x = c then r else [x]) @ replaceEach c r xs"

text \<open>
  The source is \<^verbatim>\<open>`'${arg.replace(/'/g, "'\\''")}'`\<close>. The JavaScript literal
  \<^verbatim>\<open>"'\\''"\<close> is the four characters quote, backslash, quote, quote.
\<close>

definition escapeShellArg :: "string \<Rightarrow> string" where
  "escapeShellArg arg =
     [quoteChar]
     @ replaceEach quoteChar [quoteChar, backslashChar, quoteChar, quoteChar] arg
     @ [quoteChar]"

subsection \<open>The specification's reading, and the shell's quoting rules\<close>

text \<open>
  The specification's words for the escaping: wrap in single quotes and double each
  embedded single quote.
\<close>

definition doubledQuotes_spec :: "string \<Rightarrow> string" where
  "doubledQuotes_spec s =
     [quoteChar] @ concat (map (\<lambda>c. if c = quoteChar then [quoteChar, quoteChar] else [c]) s)
     @ [quoteChar]"

text \<open>
  The quoting rules of the POSIX shell command language (section 2.2), for one word.
  This is the environment the escaped argument is handed to, not code of the
  repository. Inside single quotes every character is literal and a single quote ends
  the quoted part; outside quotes a backslash makes the next character literal (a
  backslash before a newline continues the line), a single quote opens a quoted part,
  and ordinary characters stand for themselves. The word's value is \<open>None\<close> when the text
  is not one word of this fragment: an unquoted blank, operator, expansion or pattern
  character, a double quote, a trailing backslash, or a quote that is never closed.
\<close>

definition shellSpecial :: "char \<Rightarrow> bool" where
  "shellSpecial c =
     (c \<in> set ''|&;<>()$ *?[#~=%''
      \<or> c \<in> {quoteChar, backslashChar, dquoteChar, backtickChar, newlineChar, tabChar})"

datatype quoting = Unquoted | SingleQuoted

fun shellWord :: "quoting \<Rightarrow> string \<Rightarrow> string option" where
  "shellWord Unquoted [] = Some []"
| "shellWord SingleQuoted [] = None"
| "shellWord SingleQuoted (c # cs) =
     (if c = quoteChar then shellWord Unquoted cs
      else map_option ((#) c) (shellWord SingleQuoted cs))"
| "shellWord Unquoted (c # cs) =
     (if c = quoteChar then shellWord SingleQuoted cs
      else if c = backslashChar then
        (case cs of
           [] \<Rightarrow> None
         | d # ds \<Rightarrow>
             if d = newlineChar then shellWord Unquoted ds
             else map_option ((#) d) (shellWord Unquoted ds))
      else if shellSpecial c then None
      else map_option ((#) c) (shellWord Unquoted cs))"

section \<open>The HTTP transport: \<open>authMiddleware\<close>\<close>

text \<open>
  \<open>process.env.MCP_AUTH_TOKEN\<close> and \<open>req.headers.authorization\<close> are a string or
  \<open>undefined\<close> (\<open>None\<close>). The middleware tests both with \<open>!\<close>, which holds for
  \<open>undefined\<close> and for the empty string.
\<close>

definition falsy :: "string option \<Rightarrow> bool" where
  "falsy v = (v = None \<or> v = Some [])"

definition startsWith :: "string \<Rightarrow> string \<Rightarrow> bool" where
  "startsWith s p = (take (length p) s = p)"

text \<open>\<open>s.substring(n)\<close> for a non-negative \<open>n\<close>.\<close>

definition substring :: "string \<Rightarrow> nat \<Rightarrow> string" where
  "substring s n = drop n s"

text \<open>
  What the middleware does with the request: call \<open>next()\<close>, or answer with a status and
  a JSON-RPC error (code and message).
\<close>

datatype middleware_result = Next | Respond nat int string

definition authRequired :: middleware_result where
  "authRequired =
     Respond 401 (- 32001) ''Authentication required. Please provide Authorization header.''"

definition invalidToken :: middleware_result where
  "invalidToken = Respond 403 (- 32002) ''Invalid authentication token.''"

text \<open>
  The tests \<open>!authToken\<close> and \<open>!authHeader\<close> are written as the two cases in which they
  hold: the value is \<open>undefined\<close>, or it is the empty string.
\<close>

definition authMiddleware :: "string option \<Rightarrow> string option \<Rightarrow> middleware_result" where
  "authMiddleware authToken authHeader =
     (case authToken of
        None \<Rightarrow> Next
      | Some configured \<Rightarrow>
          if configured = [] then Next
          else
            (case authHeader of
               None \<Rightarrow> authRequired
             | Some header \<Rightarrow>
                 if header = [] then authRequired
                 else
                   (let token = (if startsWith header ''Bearer ''
                                 then substring header 7 else header)
                    in if token \<noteq> configured then invalidToken else Next)))"

text \<open>
  \<open>app.post('/mcp', authMiddleware, handler)\<close>: the route's handler, which builds the
  server and dispatches the JSON-RPC request to the tools, runs exactly when the
  middleware calls \<open>next()\<close>.
\<close>

definition reachesDispatcher :: "string option \<Rightarrow> string option \<Rightarrow> bool" where
  "reachesDispatcher authToken authHeader = (authMiddleware authToken authHeader = Next)"

text \<open>
  The specification's acceptance condition: the header, taken either raw or with a
  leading \<open>Bearer \<close> prefix stripped, equals the configured token.
\<close>

definition acceptedHeader_spec :: "string \<Rightarrow> string \<Rightarrow> bool" where
  "acceptedHeader_spec token header =
     (header = token \<or> (startsWith header ''Bearer '' \<and> substring header 7 = token))"

section \<open>The tool registry\<close>

text \<open>
  A \<open>ToolDefinition\<close> has a name, a description, an input schema and a handler. The
  registry is read here for the names under which the tools are registered; the handlers
  are modelled below, each with its own parameter type.
\<close>

record ToolDefinition =
  name :: string
  description :: string

definition execCommand :: ToolDefinition where
  "execCommand =
     \<lparr>name = ''exec'', description = ''Execute a command in a Docker container''\<rparr>"

definition listContainers :: ToolDefinition where
  "listContainers =
     \<lparr>name = ''list_containers'',
      description = ''List Docker containers. By default shows only running containers, use all=true to show all containers including stopped ones.''\<rparr>"

definition getContainerInfo :: ToolDefinition where
  "getContainerInfo =
     \<lparr>name = ''get_container_info'',
      description = ''Get detailed information about a specific Docker container including state, network, mounts, environment, and resource configuration.''\<rparr>"

definition getComposeFile :: ToolDefinition where
  "getComposeFile =
     \<lparr>name = ''get_compose_file'',
      description = ''Fetch and display the Docker Compose configuration file. This reads from the host filesystem where the MCP server is running, not from inside the container.''\<rparr>"

text \<open>\<open>registry.ts\<close>, in the revision with the container management tools.\<close>

definition AVAILABLE_TOOLS :: "ToolDefinition list" where
  "AVAILABLE_TOOLS = [execCommand, listContainers, getContainerInfo]"

definition getAllTools :: "ToolDefinition list" where
  "getAllTools = AVAILABLE_TOOLS"

definition getToolByName :: "string \<Rightarrow> ToolDefinition option" where
  "getToolByName n = find (\<lambda>tool. name tool = n) AVAILABLE_TOOLS"

text \<open>\<open>registry.ts\<close>, in the revision with the compose file tool.\<close>

definition AVAILABLE_TOOLS_compose :: "ToolDefinition list" where
  "AVAILABLE_TOOLS_compose = [execCommand, getComposeFile]"

text \<open>
  \<open>getServer\<close> registers every tool of the registry under its name:
  \<open>tools.forEach(toolDef => server.tool(toolDef.name, ...))\<close>.
\<close>

definition registeredNames :: "ToolDefinition list \<Rightarrow> string list" where
  "registeredNames tools = map name tools"

text \<open>
  The single-file code editing server registers its tools by direct calls of
  \<open>server.tool\<close>; these are the names, in the order of the calls.
\<close>

definition codeEditingToolNames :: "string list" where
  "codeEditingToolNames =
     [''exec'', ''get_compose_file'', ''read_file'', ''write_file'', ''search_replace'',
      ''list_dir'', ''grep'', ''find_files'', ''delete_file'', ''shell'']"

text \<open>The named tools as the specification lists them.\<close>

definition toolNames_spec :: "string list" where
  "toolNames_spec =
     [''execute-command'', ''list-containers'', ''inspect-container'', ''read-file'',
      ''write-file'', ''replace-text'', ''list-directory'', ''search-text'', ''find-files'',
      ''delete-file'', ''fetch-compose-file'']"

section \<open>Tool results and exceptions\<close>

text \<open>
  A \<open>CallToolResult\<close> as the handlers build it: a list of content items, each of type
  \<open>text\<close>.
\<close>

datatype content_item = TextContent string

record CallToolResult =
  content :: "content_item list"

definition textResult :: "string \<Rightarrow> CallToolResult" where
  "textResult t = \<lparr>content = [TextContent t]\<rparr>"

text \<open>The promise of a handler is fulfilled with a result made of one text item.\<close>

definition returnsText :: "exn + CallToolResult \<Rightarrow> bool" where
  "returnsText r =
     (case r of
        Inl _ \<Rightarrow> False
      | Inr result \<Rightarrow> (case content result of [TextContent _] \<Rightarrow> True | _ \<Rightarrow> False))"

text \<open>\<open>error instanceof Error ? error.message : fallback\<close>\<close>

fun messageOr :: "exn \<Rightarrow> string \<Rightarrow> string" where
  "messageOr (Error m) fallback = m"
| "messageOr NonError fallback = fallback"


text \<open>Decimal notation of an integer, as a template literal prints a number.\<close>

definition digitChar :: "nat \<Rightarrow> char" where
  "digitChar d = char_of (48 + d)"

fun showNat :: "nat \<Rightarrow> string" where
  "showNat n = (if n < 10 then [digitChar n] else showNat (n div 10) @ [digitChar (n mod 10)])"

declare showNat.simps [simp del]

definition showInt :: "int \<Rightarrow> string" where
  "showInt i = (if i < 0 then ''-'' @ showNat (nat (- i)) else showNat (nat i))"

section \<open>The exec tool\<close>

text \<open>
  The result of \<open>executeDockerCommand\<close>. Docker reports the exit code as a number or
  \<open>null\<close>.
\<close>

record exec_result =
  stdout :: string
  stderr :: string
  exitCode :: "int option"







text \<open>
  The parameters the exec handler works with, and the raw input before validation by the
  input schema, in which \<open>working_dir\<close> and \<open>timeout\<close> may be missing. A JavaScript
  number is modelled as a real number.
\<close>

record exec_params =
  container_id :: string
  command :: string
  stdin_param :: "string option"
  working_dir :: "string option"
  user :: "string option"
  env :: "string list option"
  timeout :: real











section \<open>JavaScript string functions used by the tools\<close>


text \<open>
  \<open>s.trim()\<close> removes white space and line terminators at both ends. The model knows the
  ASCII ones: tab, line feed, vertical tab, form feed, carriage return and space.
\<close>

definition isWhiteSpace :: "char \<Rightarrow> bool" where
  "isWhiteSpace c = (c \<in> {CHR 0x09, CHR 0x0A, CHR 0x0B, CHR 0x0C, CHR 0x0D, CHR 0x20})"

definition trim :: "string \<Rightarrow> string" where
  "trim s = rev (dropWhile isWhiteSpace (rev (dropWhile isWhiteSpace s)))"


section \<open>The list-containers tool\<close>







section \<open>The container-info tool\<close>


section \<open>The compose-file tool\<close>

text \<open>
  The host the server runs on: \<open>process.cwd()\<close>, \<open>path.isAbsolute\<close>, \<open>path.resolve\<close>
  applied to the working directory and a path, and the outcome of
  \<open>fs.readFile(path, 'utf8')\<close>.
\<close>

record host =
  cwd :: string
  isAbsolute :: "string \<Rightarrow> bool"
  resolve :: "string \<Rightarrow> string \<Rightarrow> string"
  readFile :: "string \<Rightarrow> exn + string"






section \<open>The search-and-replace tool of the code editing server\<close>

subsection \<open>String search and replacement\<close>

text \<open>\<open>s.indexOf(pattern)\<close>: the least position at which \<open>pattern\<close> occurs, if any.\<close>

fun indexOf :: "string \<Rightarrow> string \<Rightarrow> nat option" where
  "indexOf [] pattern = (if pattern = [] then Some 0 else None)"
| "indexOf (c # cs) pattern =
     (if startsWith (c # cs) pattern then Some 0 else map_option Suc (indexOf cs pattern))"

text \<open>\<open>s.includes(pattern)\<close>\<close>

definition includes' :: "string \<Rightarrow> string \<Rightarrow> bool" where
  "includes' s pattern = (indexOf s pattern \<noteq> None)"

text \<open>
  \<open>s.split(separator).length\<close>. A non-empty separator cuts the string at its
  occurrences, found from left to right without overlap, which gives one piece more than
  occurrences. The empty separator cuts between all characters, which gives as many
  pieces as the string has characters.
\<close>

fun countPieces :: "string \<Rightarrow> string \<Rightarrow> nat" where
  "countPieces [] separator = 1"
| "countPieces (c # cs) separator =
     (if startsWith (c # cs) separator
      then Suc (countPieces (drop (length separator - 1) cs) separator)
      else countPieces cs separator)"

definition splitLength :: "string \<Rightarrow> string \<Rightarrow> nat" where
  "splitLength s separator = (if separator = [] then length s else countPieces s separator)"

text \<open>
  \<open>GetSubstitution\<close> of the language specification, for a pattern that is a string (no
  capture groups): in the replacement text \<open>$$\<close> stands for a dollar sign, \<open>$&\<close> for the
  matched text, \<open>$`\<close> for the text before the match and \<open>$'\<close> for the text after it; every
  other character, also a dollar sign before anything else, stands for itself.
\<close>

fun getSubstitution :: "string \<Rightarrow> string \<Rightarrow> string \<Rightarrow> string \<Rightarrow> string" where
  "getSubstitution matched before after [] = []"
| "getSubstitution matched before after [c] = [c]"
| "getSubstitution matched before after (c # d # rest) =
     (if c = CHR ''$'' \<and> d = CHR ''$'' then CHR ''$'' # getSubstitution matched before after rest
      else if c = CHR ''$'' \<and> d = CHR ''&'' then matched @ getSubstitution matched before after rest
      else if c = CHR ''$'' \<and> d = backtickChar
      then before @ getSubstitution matched before after rest
      else if c = CHR ''$'' \<and> d = quoteChar
      then after @ getSubstitution matched before after rest
      else c # getSubstitution matched before after (d # rest))"

text \<open>
  \<open>s.replace(pattern, replacement)\<close> with a string pattern: the first occurrence is
  replaced by the substitution of the replacement text.
\<close>

definition replace :: "string \<Rightarrow> string \<Rightarrow> string \<Rightarrow> string" where
  "replace s pattern replacement =
     (case indexOf s pattern of
        None \<Rightarrow> s
      | Some pos \<Rightarrow>
          take pos s
          @ getSubstitution pattern (take pos s) (drop (pos + length pattern) s) replacement
          @ drop (pos + length pattern) s)"

text \<open>
  \<open>s.replaceAll(pattern, replacement)\<close> with a string pattern: all occurrences, found
  from left to right without overlap. \<open>before\<close> is the text already passed. The empty
  pattern occurs before every character and at the end.
\<close>

fun replaceAllFrom :: "string \<Rightarrow> string \<Rightarrow> string \<Rightarrow> string \<Rightarrow> string" where
  "replaceAllFrom before [] pattern replacement =
     (if pattern = [] then getSubstitution pattern before [] replacement else [])"
| "replaceAllFrom before (c # cs) pattern replacement =
     (if pattern = [] then
        getSubstitution pattern before (c # cs) replacement
        @ c # replaceAllFrom (before @ [c]) cs pattern replacement
      else if startsWith (c # cs) pattern then
        getSubstitution pattern before (drop (length pattern - 1) cs) replacement
        @ replaceAllFrom (before @ pattern) (drop (length pattern - 1) cs) pattern replacement
      else c # replaceAllFrom (before @ [c]) cs pattern replacement)"

definition replaceAll :: "string \<Rightarrow> string \<Rightarrow> string \<Rightarrow> string" where
  "replaceAll s pattern replacement = replaceAllFrom [] s pattern replacement"

subsection \<open>The handler\<close>

text \<open>
  In the code editing server \<open>executeDockerCommand(command)\<close> runs a shell command in the
  target container. The container is a state \<open>'w\<close> with a function that takes a state and
  a command to the outcome of the call and the next state. A run of the handler returns
  its tool result, the container's final state, and the commands it issued, in order.
\<close>

type_synonym 'w container = "'w \<Rightarrow> string \<Rightarrow> (exn + exec_result) \<times> 'w"

record search_replace_params =
  file_path :: string
  old_string :: string
  new_string :: string
  replace_all :: bool

definition checkCommand :: "string \<Rightarrow> string" where
  "checkCommand path =
     ''test -f '' @ escapeShellArg path @ '' && echo '' @ [dquoteChar] @ ''exists''
     @ [dquoteChar] @ '' || echo '' @ [dquoteChar] @ ''not found'' @ [dquoteChar]"

definition catCommand :: "string \<Rightarrow> string" where
  "catCommand path = ''cat '' @ escapeShellArg path"

definition writeCommand :: "string \<Rightarrow> string \<Rightarrow> string" where
  "writeCommand path newContent =
     ''cat > '' @ escapeShellArg path @ '' << '' @ [quoteChar] @ ''EOF_MARKER_UNIQUE''
     @ [quoteChar] @ [newlineChar] @ newContent @ [newlineChar] @ ''EOF_MARKER_UNIQUE''"

definition caughtText :: "exn \<Rightarrow> CallToolResult" where
  "caughtText error = textResult (''Error: '' @ messageOr error ''Unknown error occurred'')"

definition search_replace_handler ::
  "'w container \<Rightarrow> 'w \<Rightarrow> search_replace_params
     \<Rightarrow> (exn + CallToolResult) \<times> 'w \<times> string list"
where
  "search_replace_handler run w0 params =
     (if old_string params = new_string params then
        (Inr (textResult ''Error: old_string and new_string must be different''), w0, [])
      else
        (let check = checkCommand (file_path params) in
         case run w0 check of
           (Inl error, w1) \<Rightarrow> (Inr (caughtText error), w1, [check])
         | (Inr checkResult, w1) \<Rightarrow>
             if trim (stdout checkResult) \<noteq> ''exists'' then
               (Inr (textResult (''Error: File not found: '' @ file_path params)), w1, [check])
             else
               (let cat = catCommand (file_path params) in
                case run w1 cat of
                  (Inl error, w2) \<Rightarrow> (Inr (caughtText error), w2, [check, cat])
                | (Inr catResult, w2) \<Rightarrow>
                    if exitCode catResult \<noteq> Some 0 then
                      (Inr (textResult (''Error reading file: '' @ stderr catResult)),
                       w2, [check, cat])
                    else
                      (let content' = stdout catResult in
                       if \<not> replace_all params
                          \<and> int (splitLength content' (old_string params)) - 1 > 1
                       then
                         (Inr (textResult
                                 (''Error: old_string '' @ [dquoteChar] @ old_string params
                                  @ [dquoteChar]
                                  @ '' is not unique in the file. Use replace_all=true or provide more context to make it unique.'')),
                          w2, [check, cat])
                       else if \<not> includes' content' (old_string params) then
                         (Inr (textResult
                                 (''Error: old_string '' @ [dquoteChar] @ old_string params
                                  @ [dquoteChar] @ '' not found in file'')),
                          w2, [check, cat])
                       else
                         (let newContent =
                                (if replace_all params
                                 then replaceAll content' (old_string params) (new_string params)
                                 else replace content' (old_string params) (new_string params));
                              write = writeCommand (file_path params) newContent
                          in
                          case run w2 write of
                            (Inl error, w3) \<Rightarrow> (Inr (caughtText error), w3, [check, cat, write])
                          | (Inr writeResult, w3) \<Rightarrow>
                              if exitCode writeResult \<noteq> Some 0 then
                                (Inr (textResult (''Error writing file: ''
                                                  @ stderr writeResult)),
                                 w3, [check, cat, write])
                              else
                                (let replacementCount =
                                       (if replace_all params
                                        then int (splitLength content' (old_string params)) - 1
                                        else 1)
                                 in (Inr (textResult
                                            (''Successfully replaced ''
                                             @ showInt replacementCount
                                             @ '' occurrence(s) in '' @ file_path params)),
                                     w3, [check, cat, write])))))))"

subsection \<open>A scripted container\<close>

text \<open>
  A container that answers the commands of a script with the scripted results and every
  other command with an empty, successful result; it has no state. It is used to run the
  handler on concrete inputs.
\<close>

definition scriptedContainer :: "(string \<times> exec_result) list \<Rightarrow> unit container" where
  "scriptedContainer script w cmd =
     (case map_of script cmd of
        Some r \<Rightarrow> (Inr r, w)
      | None \<Rightarrow> (Inr \<lparr>stdout = [], stderr = [], exitCode = Some 0\<rparr>, w))"

text \<open>
  The replacement as the tool describes it (an exact string replacement): the first
  occurrence of the old string gives way to the new string, taken literally.
\<close>

definition replaceOnce_spec :: "string \<Rightarrow> string \<Rightarrow> string \<Rightarrow> string" where
  "replaceOnce_spec s old new =
     (case indexOf s old of
        None \<Rightarrow> s
      | Some pos \<Rightarrow> take pos s @ new @ drop (pos + length old) s)"


section \<open>Properties of the stream demultiplexer\<close>




lemma length_be32 [simp]: "length (be32 n) = 4"
  by (simp add: be32_def)





lemma parseLoop_returns:
  "\<exists>so se. parseLoop dec data offset out err = Some (Inr (so, se))"
proof (induction "length data - offset" arbitrary: offset out err rule: less_induct)
  case less
  show ?case
  proof (cases "offset < length data \<and> offset + 8 \<le> length data")
    case False
    then show ?thesis
      by (subst parseLoop.simps) auto
  next
    case True
    then obtain sz where sz: "readUInt32BE data (offset + 4) = Inr sz"
      by (auto simp: readUInt32BE_def)
    show ?thesis
    proof (cases "offset + 8 + sz \<le> length data")
      case False
      with True sz show ?thesis
        by (subst parseLoop.simps) auto
    next
      case fits: True
      have "length data - (offset + 8 + sz) < length data - offset"
        using True by linarith
      from less [OF this] True sz fits show ?thesis
        by (subst parseLoop.simps) (simp add: Let_def)
    qed
  qed
qed






lemma parseDockerStream_returns:
  "\<exists>so se. parseDockerStream toString data = Some (Inr (so, se))"
  unfolding parseDockerStream_def by (rule parseLoop_returns)

text \<open>
  C9. \<open>parseDockerStream\<close> terminates on every input buffer: each iteration of the loop
  either leaves the loop or moves the offset forward by \<open>8 + size\<close>, so the distance to
  the end of the buffer shrinks. In the model the loop is a partial function, and the
  theorem says that it returns a pair of strings (it neither runs forever nor throws),
  whatever the buffer holds.
\<close>

theorem parseDockerStream_terminates:
  "\<exists>so se. parseDockerStream toString data = Some (Inr (so, se))"
  by (rule parseDockerStream_returns)



text \<open>
  Each payload is converted on its own. For a conversion that works character by
  character, and so distributes over concatenation, the strings are also the conversion
  of the concatenated payload bytes.
\<close>

lemma concat_map_toString:
  assumes "\<And>a b. toString (a @ b) = toString a @ toString b"
  shows "concat (map toString ps) = toString (concat ps)"
proof (induction ps)
  case Nil
  have "toString ([] @ []) = toString [] @ toString []" by (rule assms)
  then show ?case by simp
next
  case (Cons p ps)
  then show ?case by (simp add: assms)
qed

section \<open>Properties of the shell-argument escaping\<close>

lemma shellWord_quoted_body:
  "shellWord SingleQuoted
     (replaceEach quoteChar [quoteChar, backslashChar, quoteChar, quoteChar] s @ [quoteChar])
   = Some s"
  by (induction s) simp_all

lemma replaceEach_concat_map:
  "replaceEach c r s = concat (map (\<lambda>x. if x = c then r else [x]) s)"
  by (induction s) simp_all

text \<open>
  C2. For every string \<open>s\<close>, the shell reads \<open>escapeShellArg s\<close> as one word whose value
  is exactly \<open>s\<close>, whatever characters \<open>s\<close> contains.
\<close>

theorem escapeShellArg_roundtrip:
  "shellWord Unquoted (escapeShellArg s) = Some s"
  by (simp add: escapeShellArg_def shellWord_quoted_body)

text \<open>
  C3, as stated: the output is the input wrapped in single quotes with each embedded
  single quote doubled. The code does not double the quote; at the input consisting of
  one single quote the two differ.
\<close>

theorem escapeShellArg_not_doubling:
  "escapeShellArg [quoteChar] \<noteq> doubledQuotes_spec [quoteChar]"
  by (simp add: escapeShellArg_def doubledQuotes_spec_def)

text \<open>
  C3, amended: the output is the input wrapped in single quotes, with every embedded
  single quote replaced by the four characters quote, backslash, quote, quote.
\<close>

theorem escapeShellArg_form:
  "escapeShellArg s =
     [quoteChar]
     @ concat (map (\<lambda>c. if c = quoteChar
                          then [quoteChar, backslashChar, quoteChar, quoteChar] else [c]) s)
     @ [quoteChar]"
  by (simp add: escapeShellArg_def replaceEach_concat_map)

text \<open>
  The quoting rules tell the two forms apart: the doubled form of a single quote is read
  by the shell as the empty word.
\<close>

lemma doubledQuotes_spec_not_roundtrip:
  "shellWord Unquoted (doubledQuotes_spec [quoteChar]) = Some []"
  by (simp add: doubledQuotes_spec_def)

section \<open>Properties of the HTTP authentication check\<close>

text \<open>
  C7, as stated: whenever \<open>MCP_AUTH_TOKEN\<close> is set, a request without an Authorization
  header is rejected with status 401, and a request passes if and only if its header, raw
  or with a leading \<open>Bearer \<close> stripped, equals the token. Two inputs show otherwise. With
  the variable set to the empty string, a request without a header passes. With the
  variable set to \<open>Bearer abc\<close>, the header \<open>Bearer abc\<close>, which equals the token when
  taken raw, is rejected with status 403.
\<close>

theorem authMiddleware_corner_cases:
  "authMiddleware (Some []) None = Next
   \<and> acceptedHeader_spec ''Bearer abc'' ''Bearer abc''
   \<and> \<not> reachesDispatcher (Some ''Bearer abc'') (Some ''Bearer abc'')
   \<and> authMiddleware (Some ''Bearer abc'') (Some ''Bearer abc'')
       = Respond 403 (- 32002) ''Invalid authentication token.''"
  by (simp add: acceptedHeader_spec_def reachesDispatcher_def authMiddleware_def
      invalidToken_def startsWith_def substring_def)

lemma accepted_iff_token:
  assumes "\<not> startsWith configured ''Bearer ''"
  shows "acceptedHeader_spec configured header
     \<longleftrightarrow> (if startsWith header ''Bearer '' then substring header 7 else header) = configured"
  using assms by (auto simp: acceptedHeader_spec_def)

text \<open>
  C7, amended. When \<open>MCP_AUTH_TOKEN\<close> is set to a non-empty string that does not itself
  start with \<open>Bearer \<close>, a POST request to \<open>/mcp\<close> reaches the tool dispatcher if and only
  if it has an Authorization header that, taken either raw or with a leading \<open>Bearer \<close>
  stripped, equals the configured token; a request whose Authorization header is missing
  or empty is rejected with status 401, and a request with a non-empty header that does
  not match with status 403. When \<open>MCP_AUTH_TOKEN\<close> is unset or empty every request
  passes.
\<close>

theorem authMiddleware_gate:
  "(configured \<noteq> [] \<and> \<not> startsWith configured ''Bearer '' \<longrightarrow>
      (reachesDispatcher (Some configured) authHeader
         \<longleftrightarrow> (\<exists>header. authHeader = Some header \<and> acceptedHeader_spec configured header))
      \<and> (falsy authHeader \<longrightarrow>
            authMiddleware (Some configured) authHeader
              = Respond 401 (- 32001)
                  ''Authentication required. Please provide Authorization header.'')
      \<and> (\<forall>header. authHeader = Some header \<and> header \<noteq> []
            \<and> \<not> acceptedHeader_spec configured header
            \<longrightarrow> authMiddleware (Some configured) authHeader
                  = Respond 403 (- 32002) ''Invalid authentication token.''))
   \<and> (falsy authToken \<longrightarrow> reachesDispatcher authToken authHeader)"
proof (intro conjI impI)
  assume c: "configured \<noteq> [] \<and> \<not> startsWith configured ''Bearer ''"
  then have acc: "acceptedHeader_spec configured header
     \<longleftrightarrow> (if startsWith header ''Bearer '' then substring header 7 else header) = configured"
    for header
    by (simp add: accepted_iff_token)
  show "reachesDispatcher (Some configured) authHeader
         \<longleftrightarrow> (\<exists>header. authHeader = Some header \<and> acceptedHeader_spec configured header)"
    using c unfolding acc
    by (cases authHeader)
       (auto simp: reachesDispatcher_def authMiddleware_def authRequired_def
          invalidToken_def Let_def startsWith_def substring_def)
  show "authMiddleware (Some configured) authHeader
              = Respond 401 (- 32001)
                  ''Authentication required. Please provide Authorization header.''"
    if "falsy authHeader"
    using c that by (auto simp: authMiddleware_def authRequired_def falsy_def)
  show "\<forall>header. authHeader = Some header \<and> header \<noteq> []
            \<and> \<not> acceptedHeader_spec configured header
            \<longrightarrow> authMiddleware (Some configured) authHeader
                  = Respond 403 (- 32002) ''Invalid authentication token.''"
    using c unfolding acc by (simp add: authMiddleware_def invalidToken_def Let_def)
next
  assume "falsy authToken"
  then show "reachesDispatcher authToken authHeader"
    by (auto simp: reachesDispatcher_def authMiddleware_def falsy_def)
qed

theorem authMiddleware_gate_witness:
  "''secret'' \<noteq> [] \<and> \<not> startsWith ''secret'' ''Bearer ''
   \<and> reachesDispatcher (Some ''secret'') (Some ''Bearer secret'')
   \<and> reachesDispatcher (Some ''secret'') (Some ''secret'')
   \<and> falsy None
   \<and> authMiddleware (Some ''secret'') None
       = Respond 401 (- 32001) ''Authentication required. Please provide Authorization header.''
   \<and> authMiddleware (Some ''secret'') (Some ''Bearer wrong'')
       = Respond 403 (- 32002) ''Invalid authentication token.''
   \<and> reachesDispatcher None None"
proof -
  have ne: "''secret'' \<noteq> [] \<and> \<not> startsWith ''secret'' ''Bearer ''"
    by (simp add: startsWith_def)
  have f: "falsy None" by (simp add: falsy_def)
  have t1: "acceptedHeader_spec ''secret'' ''Bearer secret''"
    by (simp add: acceptedHeader_spec_def startsWith_def substring_def)
  have t2: "acceptedHeader_spec ''secret'' ''secret''"
    by (simp add: acceptedHeader_spec_def)
  have t3: "''Bearer wrong'' \<noteq> [] \<and> \<not> acceptedHeader_spec ''secret'' ''Bearer wrong''"
    by (simp add: acceptedHeader_spec_def startsWith_def substring_def)
  from authMiddleware_gate [of "''secret''" "Some ''Bearer secret''" None] ne t1
  have a: "reachesDispatcher (Some ''secret'') (Some ''Bearer secret'')" by blast
  from authMiddleware_gate [of "''secret''" "Some ''secret''" None] ne t2
  have b: "reachesDispatcher (Some ''secret'') (Some ''secret'')" by blast
  from authMiddleware_gate [of "''secret''" None None] ne f
  have c: "authMiddleware (Some ''secret'') None
       = Respond 401 (- 32001) ''Authentication required. Please provide Authorization header.''"
    and e: "reachesDispatcher None None"
    by blast+
  from authMiddleware_gate [of "''secret''" "Some ''Bearer wrong''" None] ne t3
  have d: "authMiddleware (Some ''secret'') (Some ''Bearer wrong'')
       = Respond 403 (- 32002) ''Invalid authentication token.''"
    by blast
  from ne a b f c d e show ?thesis by blast
qed

section \<open>Properties of the tool registry\<close>

text \<open>
  C8, as stated: the registered tool names are exactly the names the specification
  lists. The registry registers a tool named \<open>exec\<close>, which is not in the list, and the
  listed \<open>execute-command\<close> is registered nowhere.
\<close>

theorem registered_names_differ_from_spec:
  "''exec'' \<in> set (registeredNames getAllTools)
   \<and> ''exec'' \<notin> set toolNames_spec
   \<and> ''execute-command'' \<in> set toolNames_spec
   \<and> ''execute-command'' \<notin> set (registeredNames getAllTools)
   \<and> ''execute-command'' \<notin> set (registeredNames AVAILABLE_TOOLS_compose)
   \<and> ''execute-command'' \<notin> set codeEditingToolNames"
  by (simp add: registeredNames_def getAllTools_def AVAILABLE_TOOLS_def
      AVAILABLE_TOOLS_compose_def execCommand_def listContainers_def getContainerInfo_def
      getComposeFile_def toolNames_spec_def codeEditingToolNames_def)

text \<open>
  C8, amended. The tools are registered under these names: \<open>exec\<close>, \<open>list_containers\<close>
  and \<open>get_container_info\<close> in the tool registry (\<open>exec\<close> and \<open>get_compose_file\<close> in its
  compose revision), and \<open>exec\<close>, \<open>get_compose_file\<close>, \<open>read_file\<close>, \<open>write_file\<close>,
  \<open>search_replace\<close>, \<open>list_dir\<close>, \<open>grep\<close>, \<open>find_files\<close>, \<open>delete_file\<close> and \<open>shell\<close> in the
  code editing server. In each of the three the names are pairwise distinct, so a name
  stands for one tool, and \<open>getToolByName\<close> finds every tool of the registry under its
  name. None of these names is one of the names the specification lists.
\<close>

theorem registered_tool_names:
  "registeredNames getAllTools = [''exec'', ''list_containers'', ''get_container_info'']
   \<and> registeredNames AVAILABLE_TOOLS_compose = [''exec'', ''get_compose_file'']
   \<and> distinct (registeredNames getAllTools)
   \<and> distinct (registeredNames AVAILABLE_TOOLS_compose)
   \<and> distinct codeEditingToolNames
   \<and> map (\<lambda>tool. getToolByName (name tool)) AVAILABLE_TOOLS = map Some AVAILABLE_TOOLS
   \<and> set (registeredNames getAllTools @ registeredNames AVAILABLE_TOOLS_compose
           @ codeEditingToolNames) \<inter> set toolNames_spec = {}"
  by (simp add: registeredNames_def getAllTools_def AVAILABLE_TOOLS_def
      AVAILABLE_TOOLS_compose_def execCommand_def listContainers_def getContainerInfo_def
      getComposeFile_def toolNames_spec_def codeEditingToolNames_def getToolByName_def)


section \<open>Properties of the tool handlers\<close>

lemma returnsText_Inr [simp]: "returnsText (Inr (textResult t))"
  by (simp add: returnsText_def textResult_def)


lemma returnsText_caught [simp]: "returnsText (Inr (caughtText e))"
  by (simp add: caughtText_def)








subsection \<open>The exec tool on a stopped container\<close>




subsection \<open>The race between the command and the timer\<close>








section \<open>Properties of the search-and-replace tool\<close>

text \<open>
  The error paths: when the two strings are equal, when the file does not exist, when the
  old string is not unique and \<open>replace_all\<close> is false, and when the old string does not
  occur, the handler returns the error text having issued at most the check and the read
  of the file, and no write; the container is in the state those left it in.
\<close>

lemma search_replace_same_strings:
  assumes "old_string params = new_string params"
  shows "search_replace_handler run w0 params
       = (Inr (textResult ''Error: old_string and new_string must be different''), w0, [])"
  using assms by (simp add: search_replace_handler_def)

lemma search_replace_file_missing:
  assumes "old_string params \<noteq> new_string params"
    and "run w0 (checkCommand (file_path params)) = (Inr checkResult, w1)"
    and "trim (stdout checkResult) \<noteq> ''exists''"
  shows "search_replace_handler run w0 params
       = (Inr (textResult (''Error: File not found: '' @ file_path params)), w1,
          [checkCommand (file_path params)])"
  using assms by (simp add: search_replace_handler_def)

lemma search_replace_not_unique:
  assumes "old_string params \<noteq> new_string params"
    and "run w0 (checkCommand (file_path params)) = (Inr checkResult, w1)"
    and "trim (stdout checkResult) = ''exists''"
    and "run w1 (catCommand (file_path params)) = (Inr catResult, w2)"
    and "exitCode catResult = Some 0"
    and "\<not> replace_all params"
    and "int (splitLength (stdout catResult) (old_string params)) - 1 > 1"
  shows "search_replace_handler run w0 params
       = (Inr (textResult
                 (''Error: old_string '' @ [dquoteChar] @ old_string params @ [dquoteChar]
                  @ '' is not unique in the file. Use replace_all=true or provide more context to make it unique.'')),
          w2, [checkCommand (file_path params), catCommand (file_path params)])"
  using assms by (simp add: search_replace_handler_def)

lemma countPieces_no_occurrence:
  "indexOf s separator = None \<Longrightarrow> countPieces s separator = 1"
  by (induction s) (auto split: if_splits)

lemma splitLength_no_occurrence:
  "\<not> includes' s separator \<Longrightarrow> splitLength s separator = 1"
  by (cases s) (auto simp: includes'_def splitLength_def countPieces_no_occurrence
      startsWith_def split: if_splits)

lemma search_replace_not_found:
  assumes "old_string params \<noteq> new_string params"
    and "run w0 (checkCommand (file_path params)) = (Inr checkResult, w1)"
    and "trim (stdout checkResult) = ''exists''"
    and "run w1 (catCommand (file_path params)) = (Inr catResult, w2)"
    and "exitCode catResult = Some 0"
    and "\<not> includes' (stdout catResult) (old_string params)"
  shows "search_replace_handler run w0 params
       = (Inr (textResult
                 (''Error: old_string '' @ [dquoteChar] @ old_string params @ [dquoteChar]
                  @ '' not found in file'')),
          w2, [checkCommand (file_path params), catCommand (file_path params)])"
  using assms splitLength_no_occurrence [OF assms(6)]
  by (simp add: search_replace_handler_def)

text \<open>
  Where the new string contains no dollar sign, the replacement made is the exact one.
\<close>

lemma getSubstitution_literal:
  "CHR ''$'' \<notin> set replacement \<Longrightarrow> getSubstitution matched before after replacement = replacement"
  by (induction matched before after replacement rule: getSubstitution.induct) auto

lemma replace_literal:
  "CHR ''$'' \<notin> set new \<Longrightarrow> replace s old new = replaceOnce_spec s old new"
  by (simp add: replace_def replaceOnce_spec_def getSubstitution_literal split: option.split)

lemma showInt_one: "showInt 1 = ''1''"
  by (simp add: showInt_def showNat.simps [of "Suc 0"] digitChar_def char_of_def bit_0)

text \<open>
  C10. The claim is that the error paths issue no write (shown above) and that a
  successful edit of a unique occurrence leaves the file with exactly that occurrence
  replaced by \<open>new_string\<close>. The second part fails on the code: \<open>String.prototype.replace\<close>
  reads \<open>$$\<close>, \<open>$&\<close>, \<open>$`\<close> and \<open>$'\<close> in the new string as patterns. Run on a file that
  holds \<open>cost: X\<close>, with \<open>X\<close> to be replaced by \<open>$$5\<close>, the handler reports success and the
  here-document it writes holds \<open>cost: $5\<close>, where the exact replacement is \<open>cost: $$5\<close>.
\<close>

theorem search_replace_dollar_in_new_string:
  "search_replace_handler
     (scriptedContainer
        [(checkCommand ''/app/price.txt'',
          \<lparr>stdout = ''exists'' @ [newlineChar], stderr = [], exitCode = Some 0\<rparr>),
         (catCommand ''/app/price.txt'',
          \<lparr>stdout = ''cost: X'', stderr = [], exitCode = Some 0\<rparr>)])
     ()
     \<lparr>file_path = ''/app/price.txt'', old_string = ''X'', new_string = ''$$5'',
      replace_all = False\<rparr>
   = (Inr (textResult ''Successfully replaced 1 occurrence(s) in /app/price.txt''), (),
      [checkCommand ''/app/price.txt'', catCommand ''/app/price.txt'',
       writeCommand ''/app/price.txt'' ''cost: $5''])
   \<and> replaceOnce_spec ''cost: X'' ''X'' ''$$5'' = ''cost: $$5''
   \<and> writeCommand ''/app/price.txt'' ''cost: $5''
       = ''cat > '' @ [quoteChar] @ ''/app/price.txt'' @ [quoteChar] @ '' << '' @ [quoteChar]
         @ ''EOF_MARKER_UNIQUE'' @ [quoteChar] @ [newlineChar] @ ''cost: $5'' @ [newlineChar]
         @ ''EOF_MARKER_UNIQUE''"
  by (simp add: search_replace_handler_def scriptedContainer_def checkCommand_def
      catCommand_def writeCommand_def escapeShellArg_def trim_def isWhiteSpace_def
      splitLength_def includes'_def replace_def startsWith_def showInt_one
      replaceOnce_spec_def)

end
